theory Spec2Isabelle
  imports Complex_Main "HOL-Library.Multiset" "HOL-Library.Word"
begin

section \<open>The launch table\<close>

subsection \<open>Numbers and their comparison\<close>

text \<open>
  A number of the payload column or of the slider's range is an integer or a float. A cell of
  an \<^verbatim>\<open>int64\<close> column is a 64-bit integer, read as signed; integer bounds are taken in
  the same range. A float is a finite double, given by the rational it denotes. In a table read
  by pandas all cells of the column are of one kind, the column's dtype.
\<close>

datatype number = IntVal "64 word" | FloatVal rat

fun num_value :: "number \<Rightarrow> rat" where
  "num_value (IntVal w) = of_int (sint w)"
| "num_value (FloatVal q) = q"

text \<open>The number of binary digits of a natural number.\<close>

fun bit_len :: "nat \<Rightarrow> nat" where
  "bit_len n = (if n = 0 then 0 else Suc (bit_len (n div 2)))"

declare bit_len.simps [simp del]

text \<open>
  The conversion of an integer to \<^verbatim>\<open>float64\<close>: a magnitude of at most \<open>2 ^ 53\<close> is
  kept; a larger one is rounded to 53 significant binary digits, to the nearest such value and
  to the one with an even last digit when two are equally near.
\<close>

definition float64_of_nat :: "nat \<Rightarrow> nat" where
  "float64_of_nat m =
     (if m \<le> 2 ^ 53 then m
      else
        let e = bit_len m - 53;
            q = m div 2 ^ e;
            r = m mod 2 ^ e;
            half = 2 ^ (e - 1)
        in (if r > half \<or> (r = half \<and> odd q) then q + 1 else q) * 2 ^ e)"

definition float64_of_int :: "int \<Rightarrow> rat" where
  "float64_of_int n =
     (if n < 0 then - of_nat (float64_of_nat (nat (- n))) else of_nat (float64_of_nat (nat n)))"

text \<open>
  The comparisons \<^verbatim>\<open><=\<close> and \<^verbatim>\<open>>=\<close> of a column with a scalar, on one cell. Two
  integers are compared as integers and two floats as floats; when one is an integer and the
  other a float, the integer is converted to \<^verbatim>\<open>float64\<close> first.
\<close>

fun np_le :: "number \<Rightarrow> number \<Rightarrow> bool" where
  "np_le (IntVal a) (IntVal b) = (sint a \<le> sint b)"
| "np_le (FloatVal a) (FloatVal b) = (a \<le> b)"
| "np_le (IntVal a) (FloatVal b) = (float64_of_int (sint a) \<le> b)"
| "np_le (FloatVal a) (IntVal b) = (a \<le> float64_of_int (sint b))"

definition np_ge :: "number \<Rightarrow> number \<Rightarrow> bool" where
  "np_ge x y = np_le y x"

text \<open>
  Whether the comparison of two numbers is made without rounding: they are of one kind, or the
  integer among them has a magnitude of at most \<open>2 ^ 53\<close>.
\<close>

fun exactly_compared :: "number \<Rightarrow> number \<Rightarrow> bool" where
  "exactly_compared (IntVal a) (FloatVal b) = (\<bar>sint a\<bar> \<le> 2 ^ 53)"
| "exactly_compared (FloatVal a) (IntVal b) = (\<bar>sint b\<bar> \<le> 2 ^ 53)"
| "exactly_compared (IntVal a) (IntVal b) = True"
| "exactly_compared (FloatVal a) (FloatVal b) = True"

subsection \<open>Rows\<close>

text \<open>
  One row of \<^verbatim>\<open>spacex_launch_dash.csv\<close>, with the four columns the dashboard reads:
  \<^verbatim>\<open>Launch Site\<close>, \<^verbatim>\<open>Payload Mass (kg)\<close>, \<^verbatim>\<open>class\<close> and
  \<^verbatim>\<open>Booster Version Category\<close>.
\<close>

record launch =
  Launch_Site :: string
  Payload_Mass :: number
  launch_class :: int
  Booster_Version_Category :: string

type_synonym dataframe = "launch list"

text \<open>The module-level state: the table bound to \<^verbatim>\<open>spacex_df\<close> when the script loads.\<close>

record app_state =
  spacex_df :: dataframe

subsection \<open>The pandas operations the callbacks use\<close>

text \<open>\<^verbatim>\<open>Series.unique()\<close>: the distinct values, in the order they first appear.\<close>

definition unique :: "'a list \<Rightarrow> 'a list" where
  "unique xs = rev (remdups (rev xs))"

text \<open>
  \<^verbatim>\<open>Series.value_counts()\<close>: one entry per distinct value with the number of its
  occurrences, largest count first. Entries of equal count are kept here in the order of first
  appearance; no statement below depends on how ties are ordered.
\<close>

definition value_counts :: "'a list \<Rightarrow> ('a \<times> nat) list" where
  "value_counts xs =
     sort_key (\<lambda>kn. - int (snd kn)) (map (\<lambda>k. (k, count_list xs k)) (unique xs))"

subsection \<open>Figures\<close>

text \<open>
  What \<^verbatim>\<open>px.pie\<close> is given and returns as figure data: a name and a value per slice,
  and a title.
\<close>

record pie_figure =
  pie_names :: "string list"
  pie_values :: "nat list"
  pie_title :: string

definition px_pie :: "nat list \<Rightarrow> string list \<Rightarrow> string \<Rightarrow> pie_figure" where
  "px_pie vals names title = \<lparr>pie_names = names, pie_values = vals, pie_title = title\<rparr>"

text \<open>The slices of a pie figure: each name with its value.\<close>

definition pie_slices :: "pie_figure \<Rightarrow> (string \<times> nat) list" where
  "pie_slices fig = zip (pie_names fig) (pie_values fig)"

text \<open>
  What \<^verbatim>\<open>px.scatter\<close> draws: one marker per row of the frame it is given, at
  \<^verbatim>\<open>x='Payload Mass (kg)'\<close>, \<^verbatim>\<open>y='class'\<close>, coloured by
  \<^verbatim>\<open>'Booster Version Category'\<close>.
\<close>

record point =
  point_x :: number
  point_y :: int
  point_color :: string

record scatter_figure =
  scatter_points :: "point list"
  scatter_title :: string

definition to_point :: "launch \<Rightarrow> point" where
  "to_point r = \<lparr>point_x = Payload_Mass r, point_y = launch_class r,
                  point_color = Booster_Version_Category r\<rparr>"

definition px_scatter :: "dataframe \<Rightarrow> string \<Rightarrow> scatter_figure" where
  "px_scatter df title = \<lparr>scatter_points = map to_point df, scatter_title = title\<rparr>"

section \<open>The callbacks\<close>

text \<open>
  Each callback reads the global \<^verbatim>\<open>spacex_df\<close> and returns a figure; it is modelled as
  a function from the state to the figure and the state it leaves behind.
\<close>

definition get_pie_chart :: "string \<Rightarrow> app_state \<Rightarrow> pie_figure \<times> app_state" where
  "get_pie_chart entered_site st =
     (if entered_site = ''ALL'' then
        let success_by_site =
              value_counts (map Launch_Site (filter (\<lambda>r. launch_class r = 1) (spacex_df st)))
        in (px_pie (map snd success_by_site) (map fst success_by_site)
              ''Total Success Launches by Site'', st)
      else
        let filtered_df = filter (\<lambda>r. Launch_Site r = entered_site) (spacex_df st);
            success_count = length (filter (\<lambda>r. launch_class r = 1) filtered_df);
            failed_count = length (filter (\<lambda>r. launch_class r = 0) filtered_df)
        in (px_pie [success_count, failed_count] [''Success'', ''Failed'']
              (''Success vs Failed Launches for '' @ entered_site), st))"

text \<open>
  \<^verbatim>\<open>payload_range[0]\<close> and \<^verbatim>\<open>payload_range[1]\<close> raise
  \<^verbatim>\<open>IndexError\<close> on a list of fewer than two elements.
\<close>

datatype error = IndexError

definition get_scatter_chart ::
  "string \<Rightarrow> number list \<Rightarrow> app_state \<Rightarrow> (error + scatter_figure) \<times> app_state" where
  "get_scatter_chart entered_site payload_range st =
     (if length payload_range < 2 then (Inl IndexError, st)
      else
        let filtered_df = filter (\<lambda>r. np_ge (Payload_Mass r) (payload_range ! 0) \<and>
                                       np_le (Payload_Mass r) (payload_range ! 1)) (spacex_df st);
            filtered_df = (if entered_site \<noteq> ''ALL''
                           then filter (\<lambda>r. Launch_Site r = entered_site) filtered_df
                           else filtered_df)
        in (Inr (px_scatter filtered_df
                   ''Correlation between Payload Mass and Launch Success''), st))"

text \<open>
  The dashboard fires the callbacks one after the other, each on the state the previous one
  left.
\<close>

datatype event = PieEvent string | ScatterEvent string "number list"

fun fire :: "event \<Rightarrow> app_state \<Rightarrow> app_state" where
  "fire (PieEvent site) st = snd (get_pie_chart site st)"
| "fire (ScatterEvent site payload_range) st = snd (get_scatter_chart site payload_range st)"

fun run_callbacks :: "event list \<Rightarrow> app_state \<Rightarrow> app_state" where
  "run_callbacks [] st = st"
| "run_callbacks (e # es) st = run_callbacks es (fire e st)"

section \<open>Start-up port selection\<close>

text \<open>Python's \<^verbatim>\<open>str\<close> of an integer, as the f-strings format the port.\<close>

definition digit_char :: "nat \<Rightarrow> char" where
  "digit_char d = ''0123456789'' ! d"

fun str_nat :: "nat \<Rightarrow> string" where
  "str_nat n =
     (if n < 10 then [digit_char n]
      else str_nat (n div 10) @ [digit_char (n mod 10)])"

declare str_nat.simps [simp del]

definition str_int :: "int \<Rightarrow> string" where
  "str_int i = (if i < 0 then ''-'' @ str_nat (nat (- i)) else str_nat (nat i))"

text \<open>
  How a run of the \<^verbatim>\<open>__main__\<close> block ends: \<^verbatim>\<open>sys.exit(code)\<close>, or the call
  \<^verbatim>\<open>app.run(debug=True, port=port)\<close>.
\<close>

datatype outcome = Exit int | AppRun int

text \<open>
  A run of the block: the lines printed, the ports handed to \<^verbatim>\<open>is_port_available\<close>
  in the order of the calls, and how the run ends.
\<close>

record run =
  printed :: "string list"
  probed :: "int list"
  result :: outcome

text \<open>
  The \<^verbatim>\<open>for alt_port in [...]\<close> loop with its \<^verbatim>\<open>break\<close>: the ports probed, and the
  port taken if one is free (\<open>None\<close> is the loop's \<^verbatim>\<open>else\<close> branch).
\<close>

fun try_alt_ports :: "(int \<Rightarrow> bool) \<Rightarrow> int list \<Rightarrow> int list \<times> int option" where
  "try_alt_ports is_port_available [] = ([], None)"
| "try_alt_ports is_port_available (alt_port # rest) =
     (if is_port_available alt_port then ([alt_port], Some alt_port)
      else (case try_alt_ports is_port_available rest of
              (ps, r) \<Rightarrow> (alt_port # ps, r)))"

text \<open>
  The block takes \<^verbatim>\<open>sys.argv\<close>. The builtin \<^verbatim>\<open>int\<close> on a string is the parameter
  \<open>py_int\<close> (\<open>None\<close> where it raises \<^verbatim>\<open>ValueError\<close>), and the outcome of probing
  a port (\<^verbatim>\<open>connect_ex\<close> to 127.0.0.1 returning non-zero) is the parameter
  \<open>is_port_available\<close>.
\<close>

definition main ::
  "(string \<Rightarrow> int option) \<Rightarrow> (int \<Rightarrow> bool) \<Rightarrow> string list \<Rightarrow> run" where
  "main py_int is_port_available argv =
     (if length argv > 1 then
        (case py_int (argv ! 1) of
           Some port \<Rightarrow>
             \<lparr>printed = [''Using specified port: '' @ str_int port], probed = [],
              result = AppRun port\<rparr>
         | None \<Rightarrow>
             \<lparr>printed = [''Invalid port number: '' @ argv ! 1 @ ''. Using default port 8050.''],
              probed = [], result = AppRun 8050\<rparr>)
      else if \<not> is_port_available 8050 then
        (case try_alt_ports is_port_available [8051, 8052, 8053, 8054, 8055] of
           (ps, Some port) \<Rightarrow>
             \<lparr>printed = [''Port 8050 is in use. Trying alternative ports...'',
                         ''Using port '' @ str_int port @ '' instead.''],
              probed = 8050 # ps, result = AppRun port\<rparr>
         | (ps, None) \<Rightarrow>
             \<lparr>printed = [''Port 8050 is in use. Trying alternative ports...'',
                         ''No available ports found in range 8050-8055.'',
                         ''Please specify a different port: python3.11 spacex-dash-app.py <port_number>''],
              probed = 8050 # ps, result = Exit 1\<rparr>)
      else \<lparr>printed = [], probed = [8050], result = AppRun 8050\<rparr>)"

section \<open>Sample inputs\<close>

text \<open>A small table, and a second one that agrees with it on the rows of one site only.\<close>

definition sample_df :: dataframe where
  "sample_df =
     [\<lparr>Launch_Site = ''CCAFS LC-40'', Payload_Mass = FloatVal 0, launch_class = 0,
       Booster_Version_Category = ''v1.0''\<rparr>,
      \<lparr>Launch_Site = ''KSC LC-39A'', Payload_Mass = FloatVal 2490, launch_class = 1,
       Booster_Version_Category = ''FT''\<rparr>,
      \<lparr>Launch_Site = ''CCAFS LC-40'', Payload_Mass = FloatVal 525, launch_class = 1,
       Booster_Version_Category = ''v1.1''\<rparr>,
      \<lparr>Launch_Site = ''VAFB SLC-4E'', Payload_Mass = FloatVal 9600, launch_class = 0,
       Booster_Version_Category = ''B4''\<rparr>,
      \<lparr>Launch_Site = ''KSC LC-39A'', Payload_Mass = FloatVal 5300, launch_class = 1,
       Booster_Version_Category = ''FT''\<rparr>]"

definition sample_state :: app_state where
  "sample_state = \<lparr>spacex_df = sample_df\<rparr>"

definition sample_other :: app_state where
  "sample_other =
     \<lparr>spacex_df =
        [\<lparr>Launch_Site = ''KSC LC-39A'', Payload_Mass = FloatVal 2490, launch_class = 1,
          Booster_Version_Category = ''FT''\<rparr>,
         \<lparr>Launch_Site = ''VAFB SLC-4E'', Payload_Mass = FloatVal 1, launch_class = 1,
          Booster_Version_Category = ''B5''\<rparr>,
         \<lparr>Launch_Site = ''KSC LC-39A'', Payload_Mass = FloatVal 5300, launch_class = 1,
          Booster_Version_Category = ''FT''\<rparr>]\<rparr>"

text \<open>A table whose payload column has dtype \<^verbatim>\<open>int64\<close>, with a payload above \<open>2 ^ 53\<close>.\<close>

definition sample_int64 :: app_state where
  "sample_int64 =
     \<lparr>spacex_df =
        [\<lparr>Launch_Site = ''KSC LC-39A'', Payload_Mass = IntVal 9007199254740993, launch_class = 1,
          Booster_Version_Category = ''FT''\<rparr>]\<rparr>"

section \<open>Helper lemmas\<close>

lemma set_unique [simp]: "set (unique xs) = set xs"
  by (simp add: unique_def)

lemma distinct_unique [simp]: "distinct (unique xs)"
  by (simp add: unique_def)

lemma count_list_map_filter:
  "count_list (map f (filter P xs)) k = length (filter (\<lambda>r. f r = k \<and> P r) xs)"
  by (induction xs) auto

lemma set_value_counts:
  "set (value_counts xs) = (\<lambda>k. (k, count_list xs k)) ` set xs"
  by (simp add: value_counts_def)

lemma map_fst_value_counts_distinct: "distinct (map fst (value_counts xs))"
proof -
  have "mset (map fst (value_counts xs)) = mset (unique xs)"
    by (simp add: value_counts_def multiset.map_comp o_def)
  then show ?thesis
    by (metis distinct_unique mset_eq_imp_distinct_iff)
qed

lemma sum_list_value_counts: "sum_list (map snd (value_counts xs)) = length xs"
proof -
  have "mset (map snd (value_counts xs)) = mset (map (count_list xs) (unique xs))"
    by (simp add: value_counts_def multiset.map_comp o_def)
  then have "sum_list (map snd (value_counts xs)) = sum_list (map (count_list xs) (unique xs))"
    by (metis sum_mset_sum_list)
  also have "\<dots> = sum (count_list xs) (set xs)"
    by (simp add: sum_list_distinct_conv_sum_set)
  also have "\<dots> = length xs"
    by (simp add: sum_count_set)
  finally show ?thesis .
qed

lemma sample_pie_slices:
  "pie_slices (fst (get_pie_chart ''ALL'' sample_state)) =
     [(''KSC LC-39A'', 2), (''CCAFS LC-40'', 1)]"
  by code_simp

lemma scatter_points_eq:
  "fst (get_scatter_chart site [lo, hi] st) =
     Inr (px_scatter
            (filter (\<lambda>r. site \<noteq> ''ALL'' \<longrightarrow> Launch_Site r = site)
               (filter (\<lambda>r. np_ge (Payload_Mass r) lo \<and> np_le (Payload_Mass r) hi)
                  (spacex_df st)))
            ''Correlation between Payload Mass and Launch Success'')"
  by (simp add: get_scatter_chart_def Let_def)

lemma float64_of_int_exact:
  assumes "\<bar>n\<bar> \<le> 2 ^ 53"
  shows "float64_of_int n = of_int n"
proof (cases "n < 0")
  case True
  with assms have "nat (- n) \<le> 2 ^ 53" by simp
  then have "float64_of_nat (nat (- n)) = nat (- n)"
    by (simp add: float64_of_nat_def)
  with True show ?thesis
    by (simp add: float64_of_int_def)
next
  case False
  with assms have "nat n \<le> 2 ^ 53" by simp
  then have "float64_of_nat (nat n) = nat n"
    by (simp add: float64_of_nat_def)
  with False show ?thesis
    by (simp add: float64_of_int_def)
qed

lemma np_le_exact: "exactly_compared a b \<Longrightarrow> np_le a b \<longleftrightarrow> num_value a \<le> num_value b"
  by (cases a; cases b) (simp_all add: float64_of_int_exact del: of_int_sint)

lemma np_ge_exact: "exactly_compared b a \<Longrightarrow> np_ge a b \<longleftrightarrow> num_value b \<le> num_value a"
  by (simp add: np_ge_def np_le_exact)

lemma float64_above_2_53: "float64_of_int 9007199254740993 = 9007199254740992"
  by (simp add: float64_of_int_def float64_of_nat_def bit_len.simps Let_def)

lemma sample_exactly_compared:
  "\<forall>r \<in> set (spacex_df sample_state).
     exactly_compared (IntVal 525) (Payload_Mass r) \<and>
     exactly_compared (Payload_Mass r) (IntVal 3000)"
  by (simp add: sample_state_def sample_df_def)

lemma sample_exactly_compared_inverted:
  "\<forall>r \<in> set (spacex_df sample_state).
     exactly_compared (IntVal 3000) (Payload_Mass r) \<and>
     exactly_compared (Payload_Mass r) (IntVal 525)"
  by (simp add: sample_state_def sample_df_def)

lemma length_filter_binary:
  assumes "\<forall>r \<in> set xs. f r = (0::int) \<or> f r = 1"
  shows "length (filter (\<lambda>r. f r = 1) xs) + length (filter (\<lambda>r. f r = 0) xs) = length xs"
  using assms by (induction xs) auto

lemma sample_classes:
  "\<forall>r \<in> set (spacex_df sample_state). launch_class r = 0 \<or> launch_class r = 1"
  by (simp add: sample_state_def sample_df_def)

lemma get_pie_chart_state: "snd (get_pie_chart entered_site st) = st"
  by (simp add: get_pie_chart_def Let_def)

lemma get_scatter_chart_state: "snd (get_scatter_chart entered_site payload_range st) = st"
  by (simp add: get_scatter_chart_def Let_def)

lemma fire_state: "fire e st = st"
  by (cases e) (simp_all add: get_pie_chart_state get_scatter_chart_state)

lemma run_callbacks_state: "run_callbacks es st = st"
  by (induction es arbitrary: st) (simp_all add: fire_state)

lemma try_alt_ports_all_busy:
  "\<forall>p \<in> set ps. \<not> avail p \<Longrightarrow> try_alt_ports avail ps = (ps, None)"
  by (induction ps) auto


section \<open>The pie chart\<close>

text \<open>
  Claim C1. With the input \<^verbatim>\<open>'ALL'\<close> the pie has exactly one slice per distinct
  launch site that has a row with \<^verbatim>\<open>class = 1\<close>: the slice names are distinct and are
  exactly those sites, there is one value per name, each slice's value is the number of rows of
  its site with \<^verbatim>\<open>class = 1\<close>, the number of slices is the number of such sites, and the
  values sum to the number of rows with \<^verbatim>\<open>class = 1\<close> in the table.
\<close>

theorem get_pie_chart_ALL_slices:
  "distinct (pie_names (fst (get_pie_chart ''ALL'' st))) \<and>
   set (pie_names (fst (get_pie_chart ''ALL'' st))) =
     Launch_Site ` {r \<in> set (spacex_df st). launch_class r = 1} \<and>
   length (pie_values (fst (get_pie_chart ''ALL'' st))) =
     length (pie_names (fst (get_pie_chart ''ALL'' st))) \<and>
   (\<forall>(s, v) \<in> set (pie_slices (fst (get_pie_chart ''ALL'' st))).
      v = length (filter (\<lambda>r. Launch_Site r = s \<and> launch_class r = 1) (spacex_df st))) \<and>
   length (pie_slices (fst (get_pie_chart ''ALL'' st))) =
     card (Launch_Site ` {r \<in> set (spacex_df st). launch_class r = 1}) \<and>
   sum_list (pie_values (fst (get_pie_chart ''ALL'' st))) =
     length (filter (\<lambda>r. launch_class r = 1) (spacex_df st))"
proof -
  define xs where "xs = map Launch_Site (filter (\<lambda>r. launch_class r = 1) (spacex_df st))"
  have fig: "fst (get_pie_chart ''ALL'' st) =
      px_pie (map snd (value_counts xs)) (map fst (value_counts xs))
        ''Total Success Launches by Site''"
    by (simp add: get_pie_chart_def xs_def Let_def)
  have names: "pie_names (fst (get_pie_chart ''ALL'' st)) = map fst (value_counts xs)"
    and vals: "pie_values (fst (get_pie_chart ''ALL'' st)) = map snd (value_counts xs)"
    by (simp_all add: fig px_pie_def)
  have slices: "pie_slices (fst (get_pie_chart ''ALL'' st)) = value_counts xs"
    by (simp add: pie_slices_def names vals zip_map_fst_snd)
  have sx: "set xs = Launch_Site ` {r \<in> set (spacex_df st). launch_class r = 1}"
    by (auto simp: xs_def)
  have d: "distinct (map fst (value_counts xs))"
    by (rule map_fst_value_counts_distinct)
  have s: "set (map fst (value_counts xs)) = set xs"
    by (simp add: set_value_counts image_image)
  have c1: "distinct (pie_names (fst (get_pie_chart ''ALL'' st)))"
    using d by (simp add: names)
  have c2: "set (pie_names (fst (get_pie_chart ''ALL'' st))) =
     Launch_Site ` {r \<in> set (spacex_df st). launch_class r = 1}"
    using s sx by (simp add: names)
  have c3: "length (pie_values (fst (get_pie_chart ''ALL'' st))) =
     length (pie_names (fst (get_pie_chart ''ALL'' st)))"
    by (simp add: names vals)
  have c4: "\<forall>(s, v) \<in> set (pie_slices (fst (get_pie_chart ''ALL'' st))).
      v = length (filter (\<lambda>r. Launch_Site r = s \<and> launch_class r = 1) (spacex_df st))"
    by (auto simp: slices set_value_counts xs_def count_list_map_filter)
  have "length (value_counts xs) = card (set xs)"
    using d s by (metis distinct_card length_map)
  then have c5: "length (pie_slices (fst (get_pie_chart ''ALL'' st))) =
     card (Launch_Site ` {r \<in> set (spacex_df st). launch_class r = 1})"
    by (simp add: slices sx)
  have c6: "sum_list (pie_values (fst (get_pie_chart ''ALL'' st))) =
     length (filter (\<lambda>r. launch_class r = 1) (spacex_df st))"
    by (simp add: vals sum_list_value_counts xs_def)
  from c1 c2 c3 c4 c5 c6 show ?thesis by blast
qed

theorem get_pie_chart_ALL_slices_witness:
  "(''KSC LC-39A'', 2) \<in> set (pie_slices (fst (get_pie_chart ''ALL'' sample_state))) \<and>
   (2::nat) = length (filter (\<lambda>r. Launch_Site r = ''KSC LC-39A'' \<and> launch_class r = 1)
                        (spacex_df sample_state))"
  using get_pie_chart_ALL_slices [of sample_state] by (simp add: sample_pie_slices)

text \<open>
  Claim C3. With a site other than \<^verbatim>\<open>'ALL'\<close>, on a table whose
  \<^verbatim>\<open>class\<close> values are all 0 or 1, the pie has the two slices
  \<^verbatim>\<open>'Success'\<close> and \<^verbatim>\<open>'Failed'\<close>, and their values sum to the number of rows whose
  launch site is the selected one.
\<close>

theorem get_pie_chart_site_total:
  assumes "entered_site \<noteq> ''ALL''"
    and "\<forall>r \<in> set (spacex_df st). launch_class r = 0 \<or> launch_class r = 1"
  shows "pie_names (fst (get_pie_chart entered_site st)) = [''Success'', ''Failed''] \<and>
         length (pie_values (fst (get_pie_chart entered_site st))) = 2 \<and>
         sum_list (pie_values (fst (get_pie_chart entered_site st))) =
           length (filter (\<lambda>r. Launch_Site r = entered_site) (spacex_df st))"
proof -
  let ?xs = "filter (\<lambda>r. Launch_Site r = entered_site) (spacex_df st)"
  have "\<forall>r \<in> set ?xs. launch_class r = 0 \<or> launch_class r = 1"
    using assms(2) by simp
  then have "length (filter (\<lambda>r. launch_class r = 1) ?xs) +
             length (filter (\<lambda>r. launch_class r = 0) ?xs) = length ?xs"
    by (rule length_filter_binary)
  then show ?thesis
    using assms(1) by (simp add: get_pie_chart_def px_pie_def Let_def)
qed

theorem get_pie_chart_site_total_witness:
  "''CCAFS LC-40'' \<noteq> ''ALL'' \<and>
   pie_names (fst (get_pie_chart ''CCAFS LC-40'' sample_state)) = [''Success'', ''Failed''] \<and>
   pie_values (fst (get_pie_chart ''CCAFS LC-40'' sample_state)) = [1, 1] \<and>
   length (filter (\<lambda>r. Launch_Site r = ''CCAFS LC-40'') (spacex_df sample_state)) = 2"
proof -
  have h: "''CCAFS LC-40'' \<noteq> ''ALL''" by simp
  have v: "pie_values (fst (get_pie_chart ''CCAFS LC-40'' sample_state)) = [1, 1]"
    by (simp add: get_pie_chart_def px_pie_def Let_def sample_state_def sample_df_def)
  show ?thesis
    using get_pie_chart_site_total [OF h sample_classes] h v by simp
qed

section \<open>The scatter chart\<close>

text \<open>
  Claim C2, as stated: for a payload range \<open>[lo, hi]\<close> with \<open>lo \<le> hi\<close> every point of
  the scatter figure has a payload mass between \<open>lo\<close> and \<open>hi\<close>. It fails on a table
  whose \<^verbatim>\<open>int64\<close> payload column holds \<open>2 ^ 53 + 1\<close>, with the range from the
  integer 0 to the float \<open>2 ^ 53\<close>: the column is converted to \<^verbatim>\<open>float64\<close> for the
  comparison with the float bound, the payload rounds to \<open>2 ^ 53\<close>, and the row is drawn
  although its payload is above the upper bound.
\<close>

theorem get_scatter_chart_in_range_counterexample:
  "num_value (IntVal 0) \<le> num_value (FloatVal 9007199254740992) \<and>
   fst (get_scatter_chart ''ALL'' [IntVal 0, FloatVal 9007199254740992] sample_int64) =
     Inr \<lparr>scatter_points =
            [\<lparr>point_x = IntVal 9007199254740993, point_y = 1, point_color = ''FT''\<rparr>],
          scatter_title = ''Correlation between Payload Mass and Launch Success''\<rparr> \<and>
   \<not> num_value (IntVal 9007199254740993) \<le> num_value (FloatVal 9007199254740992)"
  by (simp add: scatter_points_eq px_scatter_def to_point_def sample_int64_def np_ge_def
      float64_above_2_53)

text \<open>
  Claim C2, amended. For a payload range \<open>[lo, hi]\<close> with \<open>lo \<le> hi\<close> the callback
  returns a figure, and every point of it has a payload mass that the comparisons of the filter
  accept: at least \<open>lo\<close> and at most \<open>hi\<close>, where an integer compared with a float is
  converted to \<^verbatim>\<open>float64\<close> first. When no comparison rounds (each payload and each bound
  it is compared with are both integers or both floats, or the integer among them has a
  magnitude of at most \<open>2 ^ 53\<close>), every point has a payload mass between \<open>lo\<close> and
  \<open>hi\<close>, both bounds included.
\<close>

theorem get_scatter_chart_in_range:
  assumes "num_value lo \<le> num_value hi"
  shows "\<exists>fig. fst (get_scatter_chart site [lo, hi] st) = Inr fig \<and>
           (\<forall>p \<in> set (scatter_points fig). np_ge (point_x p) lo \<and> np_le (point_x p) hi) \<and>
           ((\<forall>r \<in> set (spacex_df st).
               exactly_compared lo (Payload_Mass r) \<and> exactly_compared (Payload_Mass r) hi) \<longrightarrow>
            (\<forall>p \<in> set (scatter_points fig).
               num_value lo \<le> num_value (point_x p) \<and> num_value (point_x p) \<le> num_value hi))"
proof -
  let ?rows = "filter (\<lambda>r. site \<noteq> ''ALL'' \<longrightarrow> Launch_Site r = site)
                 (filter (\<lambda>r. np_ge (Payload_Mass r) lo \<and> np_le (Payload_Mass r) hi)
                    (spacex_df st))"
  let ?fig = "px_scatter ?rows ''Correlation between Payload Mass and Launch Success''"
  have fig: "fst (get_scatter_chart site [lo, hi] st) = Inr ?fig"
    by (rule scatter_points_eq)
  have a: "\<forall>p \<in> set (scatter_points ?fig). np_ge (point_x p) lo \<and> np_le (point_x p) hi"
    by (auto simp: px_scatter_def to_point_def)
  have b: "\<forall>p \<in> set (scatter_points ?fig).
             num_value lo \<le> num_value (point_x p) \<and> num_value (point_x p) \<le> num_value hi"
    if ex: "\<forall>r \<in> set (spacex_df st).
              exactly_compared lo (Payload_Mass r) \<and> exactly_compared (Payload_Mass r) hi"
  proof
    fix p
    assume "p \<in> set (scatter_points ?fig)"
    then obtain r where r: "r \<in> set (spacex_df st)" "p = to_point r"
      "np_ge (Payload_Mass r) lo" "np_le (Payload_Mass r) hi"
      by (auto simp: px_scatter_def)
    from ex r(1) have "exactly_compared lo (Payload_Mass r)"
      and "exactly_compared (Payload_Mass r) hi"
      by simp_all
    with r(3,4) have "num_value lo \<le> num_value (Payload_Mass r)"
      and "num_value (Payload_Mass r) \<le> num_value hi"
      by (simp_all add: np_ge_exact np_le_exact)
    then show "num_value lo \<le> num_value (point_x p) \<and> num_value (point_x p) \<le> num_value hi"
      by (simp add: r(2) to_point_def)
  qed
  from fig a b show ?thesis by blast
qed

theorem get_scatter_chart_in_range_witness:
  "num_value (IntVal 525) \<le> num_value (IntVal 3000) \<and>
   fst (get_scatter_chart ''ALL'' [IntVal 525, IntVal 3000] sample_state) =
     Inr \<lparr>scatter_points =
            [\<lparr>point_x = FloatVal 2490, point_y = 1, point_color = ''FT''\<rparr>,
             \<lparr>point_x = FloatVal 525, point_y = 1, point_color = ''v1.1''\<rparr>],
          scatter_title = ''Correlation between Payload Mass and Launch Success''\<rparr> \<and>
   num_value (IntVal 525) \<le> num_value (FloatVal 2490) \<and>
   num_value (FloatVal 2490) \<le> num_value (IntVal 3000)"
proof -
  have h: "num_value (IntVal 525) \<le> num_value (IntVal 3000)" by simp
  have e: "fst (get_scatter_chart ''ALL'' [IntVal 525, IntVal 3000] sample_state) =
     Inr \<lparr>scatter_points =
            [\<lparr>point_x = FloatVal 2490, point_y = 1, point_color = ''FT''\<rparr>,
             \<lparr>point_x = FloatVal 525, point_y = 1, point_color = ''v1.1''\<rparr>],
          scatter_title = ''Correlation between Payload Mass and Launch Success''\<rparr>"
    by (simp add: scatter_points_eq px_scatter_def to_point_def sample_state_def sample_df_def
        np_ge_def float64_of_int_exact)
  show ?thesis
    using get_scatter_chart_in_range [OF h, of "''ALL''" sample_state] e
      sample_exactly_compared
    by simp
qed

text \<open>
  Claim C7, as stated: for a payload range \<open>[lo, hi]\<close> with \<open>lo > hi\<close> the figure has no
  points. It fails on a table whose \<^verbatim>\<open>int64\<close> payload column holds \<open>2 ^ 53 + 1\<close>,
  with the range from the integer \<open>2 ^ 53 + 1\<close> to the float \<open>2 ^ 53\<close>: the lower
  comparison is between integers and holds, the upper one converts the payload to
  \<^verbatim>\<open>float64\<close>, where it rounds to \<open>2 ^ 53\<close>, and holds too, so the row is drawn.
\<close>

theorem get_scatter_chart_inverted_range_counterexample:
  "num_value (IntVal 9007199254740993) > num_value (FloatVal 9007199254740992) \<and>
   fst (get_scatter_chart ''ALL'' [IntVal 9007199254740993, FloatVal 9007199254740992]
          sample_int64) =
     Inr \<lparr>scatter_points =
            [\<lparr>point_x = IntVal 9007199254740993, point_y = 1, point_color = ''FT''\<rparr>],
          scatter_title = ''Correlation between Payload Mass and Launch Success''\<rparr>"
  by (simp add: scatter_points_eq px_scatter_def to_point_def sample_int64_def np_ge_def
      float64_above_2_53)

text \<open>
  Claim C7, amended. For a payload range \<open>[lo, hi]\<close> with \<open>lo > hi\<close> in which no
  comparison rounds (each payload and each bound it is compared with are both integers or both
  floats, or the integer among them has a magnitude of at most \<open>2 ^ 53\<close>), the callback
  raises no error and validates nothing: it returns a figure, and the figure has no points.
\<close>

theorem get_scatter_chart_inverted_range:
  assumes "num_value lo > num_value hi"
    and "\<forall>r \<in> set (spacex_df st).
           exactly_compared lo (Payload_Mass r) \<and> exactly_compared (Payload_Mass r) hi"
  shows "\<exists>fig. fst (get_scatter_chart entered_site [lo, hi] st) = Inr fig \<and>
           scatter_points fig = []"
proof -
  have "\<not> (np_ge (Payload_Mass r) lo \<and> np_le (Payload_Mass r) hi)"
    if "r \<in> set (spacex_df st)" for r
  proof -
    from assms(2) that have "exactly_compared lo (Payload_Mass r)"
      and "exactly_compared (Payload_Mass r) hi"
      by simp_all
    then have "np_ge (Payload_Mass r) lo \<longleftrightarrow> num_value lo \<le> num_value (Payload_Mass r)"
      and "np_le (Payload_Mass r) hi \<longleftrightarrow> num_value (Payload_Mass r) \<le> num_value hi"
      by (simp_all add: np_ge_exact np_le_exact)
    with assms(1) show ?thesis by simp
  qed
  then have "filter (\<lambda>r. np_ge (Payload_Mass r) lo \<and> np_le (Payload_Mass r) hi)
               (spacex_df st) = []"
    by (simp add: filter_empty_conv)
  then show ?thesis
    by (simp add: scatter_points_eq px_scatter_def)
qed

theorem get_scatter_chart_inverted_range_witness:
  "num_value (IntVal 3000) > num_value (IntVal 525) \<and>
   fst (get_scatter_chart ''ALL'' [IntVal 3000, IntVal 525] sample_state) =
     Inr \<lparr>scatter_points = [],
          scatter_title = ''Correlation between Payload Mass and Launch Success''\<rparr>"
proof -
  have h: "num_value (IntVal 3000) > num_value (IntVal 525)" by simp
  show ?thesis
    using get_scatter_chart_inverted_range
      [OF h sample_exactly_compared_inverted, of "''ALL''"] h
    by (auto simp: scatter_points_eq px_scatter_def)
qed

section \<open>Selecting a site\<close>

text \<open>
  Claim C4. With a site other than \<^verbatim>\<open>'ALL'\<close>, only rows of that site contribute:
  the pie figure is the same on any two tables that have the same rows of the selected site, its
  two values count rows of the selected site only, and every point of the scatter figure is the
  point of a row of the table whose launch site equals the selected one.
\<close>

theorem selected_site_only:
  assumes "entered_site \<noteq> ''ALL''"
    and "filter (\<lambda>r. Launch_Site r = entered_site) (spacex_df st') =
         filter (\<lambda>r. Launch_Site r = entered_site) (spacex_df st)"
  shows "fst (get_pie_chart entered_site st') = fst (get_pie_chart entered_site st) \<and>
         pie_values (fst (get_pie_chart entered_site st)) =
           [length (filter (\<lambda>r. Launch_Site r = entered_site \<and> launch_class r = 1)
                      (spacex_df st)),
            length (filter (\<lambda>r. Launch_Site r = entered_site \<and> launch_class r = 0)
                      (spacex_df st))] \<and>
         (\<exists>fig. fst (get_scatter_chart entered_site [lo, hi] st) = Inr fig \<and>
            (\<forall>p \<in> set (scatter_points fig).
               \<exists>r \<in> set (spacex_df st). Launch_Site r = entered_site \<and> p = to_point r))"
proof -
  have a: "fst (get_pie_chart entered_site st') = fst (get_pie_chart entered_site st)"
    using assms by (simp add: get_pie_chart_def Let_def)
  have b: "pie_values (fst (get_pie_chart entered_site st)) =
           [length (filter (\<lambda>r. Launch_Site r = entered_site \<and> launch_class r = 1)
                      (spacex_df st)),
            length (filter (\<lambda>r. Launch_Site r = entered_site \<and> launch_class r = 0)
                      (spacex_df st))]"
    using assms(1) by (simp add: get_pie_chart_def px_pie_def Let_def conj_commute)
  have c: "\<exists>fig. fst (get_scatter_chart entered_site [lo, hi] st) = Inr fig \<and>
            (\<forall>p \<in> set (scatter_points fig).
               \<exists>r \<in> set (spacex_df st). Launch_Site r = entered_site \<and> p = to_point r)"
    using assms(1) by (auto simp: scatter_points_eq px_scatter_def)
  from a b c show ?thesis by blast
qed

theorem selected_site_only_witness:
  "''KSC LC-39A'' \<noteq> ''ALL'' \<and>
   filter (\<lambda>r. Launch_Site r = ''KSC LC-39A'') (spacex_df sample_other) =
     filter (\<lambda>r. Launch_Site r = ''KSC LC-39A'') (spacex_df sample_state) \<and>
   spacex_df sample_other \<noteq> spacex_df sample_state \<and>
   fst (get_pie_chart ''KSC LC-39A'' sample_other) =
     fst (get_pie_chart ''KSC LC-39A'' sample_state) \<and>
   pie_values (fst (get_pie_chart ''KSC LC-39A'' sample_state)) = [2, 0] \<and>
   fst (get_scatter_chart ''KSC LC-39A'' [IntVal 0, IntVal 3000] sample_state) =
     Inr \<lparr>scatter_points = [\<lparr>point_x = FloatVal 2490, point_y = 1, point_color = ''FT''\<rparr>],
          scatter_title = ''Correlation between Payload Mass and Launch Success''\<rparr>"
proof -
  have h1: "''KSC LC-39A'' \<noteq> ''ALL''" by simp
  have h2: "filter (\<lambda>r. Launch_Site r = ''KSC LC-39A'') (spacex_df sample_other) =
     filter (\<lambda>r. Launch_Site r = ''KSC LC-39A'') (spacex_df sample_state)"
    by (simp add: sample_other_def sample_state_def sample_df_def)
  have h3: "spacex_df sample_other \<noteq> spacex_df sample_state"
    by (simp add: sample_other_def sample_state_def sample_df_def)
  have e: "fst (get_scatter_chart ''KSC LC-39A'' [IntVal 0, IntVal 3000] sample_state) =
     Inr \<lparr>scatter_points = [\<lparr>point_x = FloatVal 2490, point_y = 1, point_color = ''FT''\<rparr>],
          scatter_title = ''Correlation between Payload Mass and Launch Success''\<rparr>"
    by (simp add: scatter_points_eq px_scatter_def to_point_def sample_state_def sample_df_def
        np_ge_def float64_of_int_exact)
  have v: "length (filter (\<lambda>r. Launch_Site r = ''KSC LC-39A'' \<and> launch_class r = 1)
                      (spacex_df sample_state)) = 2 \<and>
           length (filter (\<lambda>r. Launch_Site r = ''KSC LC-39A'' \<and> launch_class r = 0)
                      (spacex_df sample_state)) = 0"
    by (simp add: sample_state_def sample_df_def)
  show ?thesis
    using selected_site_only [OF h1 h2, of "IntVal 0" "IntVal 3000"] h1 h2 h3 e v by simp
qed

section \<open>The table across callbacks\<close>

text \<open>
  Claim C8. Neither callback changes \<^verbatim>\<open>spacex_df\<close>: after one invocation of either,
  and after any sequence of invocations, the table is the one that was loaded.
\<close>

theorem callbacks_leave_table:
  "spacex_df (snd (get_pie_chart entered_site st)) = spacex_df st \<and>
   spacex_df (snd (get_scatter_chart entered_site payload_range st)) = spacex_df st \<and>
   spacex_df (run_callbacks es st) = spacex_df st"
  by (simp add: get_pie_chart_state get_scatter_chart_state run_callbacks_state)

text \<open>
  Claim C10. The callbacks are deterministic on a loaded table: whatever callbacks have run
  before, an invocation of \<^verbatim>\<open>get_pie_chart\<close> with the same site, or of
  \<^verbatim>\<open>get_scatter_chart\<close> with the same site and payload range, returns the figure the
  first invocation returned.
\<close>

theorem callbacks_deterministic:
  "fst (get_pie_chart entered_site (run_callbacks es st)) = fst (get_pie_chart entered_site st) \<and>
   fst (get_scatter_chart entered_site payload_range (run_callbacks es st)) =
     fst (get_scatter_chart entered_site payload_range st)"
  by (simp add: run_callbacks_state)

section \<open>Port selection\<close>

text \<open>
  Claim C5. Without a command-line argument: if port 8050 is occupied and 8051 is free, the
  server is run on 8051; if 8050 to 8055 are all occupied, the block prints its messages and
  exits with status 1, having probed 8050 to 8055 in this order; and in general, with 8050
  occupied, the first free port among 8051 to 8055 is taken, after probing the ports up to it in
  ascending order.
\<close>

theorem main_no_argument:
  assumes "length argv \<le> 1"
  shows "(\<not> avail 8050 \<and> avail 8051 \<longrightarrow> result (main py_int avail argv) = AppRun 8051) \<and>
         ((\<forall>p \<in> {8050..8055}. \<not> avail p) \<longrightarrow>
            result (main py_int avail argv) = Exit 1 \<and>
            printed (main py_int avail argv) =
              [''Port 8050 is in use. Trying alternative ports...'',
               ''No available ports found in range 8050-8055.'',
               ''Please specify a different port: python3.11 spacex-dash-app.py <port_number>''] \<and>
            probed (main py_int avail argv) = [8050, 8051, 8052, 8053, 8054, 8055]) \<and>
         (\<forall>p \<in> {8051..8055}.
            \<not> avail 8050 \<and> avail p \<and> (\<forall>q \<in> {8051..<p}. \<not> avail q) \<longrightarrow>
              result (main py_int avail argv) = AppRun p \<and>
              probed (main py_int avail argv) = [8050..p])"
proof -
  have n: "\<not> 1 < length argv" using assms by simp
  have a: "\<not> avail 8050 \<and> avail 8051 \<longrightarrow> result (main py_int avail argv) = AppRun 8051"
    using n by (simp add: main_def)
  have b: "(\<forall>p \<in> {8050..8055}. \<not> avail p) \<longrightarrow>
            result (main py_int avail argv) = Exit 1 \<and>
            printed (main py_int avail argv) =
              [''Port 8050 is in use. Trying alternative ports...'',
               ''No available ports found in range 8050-8055.'',
               ''Please specify a different port: python3.11 spacex-dash-app.py <port_number>''] \<and>
            probed (main py_int avail argv) = [8050, 8051, 8052, 8053, 8054, 8055]"
  proof
    assume busy: "\<forall>p \<in> {8050..8055}. \<not> avail p"
    then have "\<not> avail 8050" by simp
    moreover have "try_alt_ports avail [8051, 8052, 8053, 8054, 8055] =
        ([8051, 8052, 8053, 8054, 8055], None)"
      using busy by (intro try_alt_ports_all_busy) simp
    ultimately show "result (main py_int avail argv) = Exit 1 \<and>
            printed (main py_int avail argv) =
              [''Port 8050 is in use. Trying alternative ports...'',
               ''No available ports found in range 8050-8055.'',
               ''Please specify a different port: python3.11 spacex-dash-app.py <port_number>''] \<and>
            probed (main py_int avail argv) = [8050, 8051, 8052, 8053, 8054, 8055]"
      using n by (simp add: main_def)
  qed
  have c: "\<forall>p \<in> {8051..8055}.
            \<not> avail 8050 \<and> avail p \<and> (\<forall>q \<in> {8051..<p}. \<not> avail q) \<longrightarrow>
              result (main py_int avail argv) = AppRun p \<and>
              probed (main py_int avail argv) = [8050..p]"
  proof (intro ballI impI)
    fix p :: int
    assume p: "p \<in> {8051..8055}"
      and h: "\<not> avail 8050 \<and> avail p \<and> (\<forall>q \<in> {8051..<p}. \<not> avail q)"
    from p have "8051 \<le> p" and "p \<le> 8055" by simp_all
    then consider "p = 8051" | "p = 8052" | "p = 8053" | "p = 8054" | "p = 8055"
      by arith
    then show "result (main py_int avail argv) = AppRun p \<and>
              probed (main py_int avail argv) = [8050..p]"
    proof cases
      case 1
      with h n show ?thesis by (simp add: main_def)
    next
      case 2
      with h n show ?thesis by (simp add: main_def)
    next
      case 3
      with h n show ?thesis by (simp add: main_def)
    next
      case 4
      with h n show ?thesis by (simp add: main_def)
    next
      case 5
      with h n show ?thesis by (simp add: main_def)
    qed
  qed
  from a b c show ?thesis by blast
qed

theorem main_no_argument_witness:
  "length [''spacex-dash-app.py''] \<le> 1 \<and>
   result (main Map.empty (\<lambda>p. p = 8051) [''spacex-dash-app.py'']) = AppRun 8051 \<and>
   result (main Map.empty (\<lambda>p. False) [''spacex-dash-app.py'']) = Exit 1 \<and>
   probed (main Map.empty (\<lambda>p. False) [''spacex-dash-app.py'']) =
     [8050, 8051, 8052, 8053, 8054, 8055] \<and>
   result (main Map.empty (\<lambda>p. 8053 \<le> p) [''spacex-dash-app.py'']) = AppRun 8053 \<and>
   probed (main Map.empty (\<lambda>p. 8053 \<le> p) [''spacex-dash-app.py'']) =
     [8050, 8051, 8052, 8053]"
proof -
  have h: "length [''spacex-dash-app.py''] \<le> 1" by simp
  have m: "(8053::int) \<in> {8051..8055}" by simp
  have a: "result (main Map.empty (\<lambda>p. p = 8051) [''spacex-dash-app.py'']) = AppRun 8051"
    using main_no_argument [OF h, of "\<lambda>p. p = 8051" Map.empty] by simp
  have b: "result (main Map.empty (\<lambda>p. False) [''spacex-dash-app.py'']) = Exit 1 \<and>
      probed (main Map.empty (\<lambda>p. False) [''spacex-dash-app.py'']) =
        [8050, 8051, 8052, 8053, 8054, 8055]"
    using main_no_argument [OF h, of "\<lambda>p. False" Map.empty] by simp
  have "\<forall>p \<in> {8051..8055}.
            \<not> 8053 \<le> (8050::int) \<and> 8053 \<le> p \<and> (\<forall>q \<in> {8051..<p}. \<not> 8053 \<le> q) \<longrightarrow>
              result (main Map.empty (\<lambda>p. 8053 \<le> p) [''spacex-dash-app.py'']) = AppRun p \<and>
              probed (main Map.empty (\<lambda>p. 8053 \<le> p) [''spacex-dash-app.py'']) = [8050..p]"
    using main_no_argument [OF h, of "\<lambda>p. 8053 \<le> p" Map.empty] by blast
  from bspec [OF this m]
  have c: "result (main Map.empty (\<lambda>p. 8053 \<le> p) [''spacex-dash-app.py'']) = AppRun 8053 \<and>
      probed (main Map.empty (\<lambda>p. 8053 \<le> p) [''spacex-dash-app.py'']) =
        [8050, 8051, 8052, 8053]"
    by simp
  from h a b c show ?thesis by blast
qed





end
